theory Spec2Isabelle
  imports Complex_Main
begin

section \<open>The pointer tracker of \<^verbatim>\<open>src/actions/pointer.ts\<close>\<close>

text \<open>
  The tracker is a closure over a few dozen mutable variables, driven by DOM event
  listeners. Here the closure is a record, every listener is a function from the record
  to the updated record together with the list of change events it dispatched, and the
  DOM supplies its inputs (pointer events, keyboard events, bounding rectangles) as
  arguments.

  JavaScript numbers are modelled as real numbers: rounding, \<^verbatim>\<open>NaN\<close> and the
  infinities are outside the model, and so is a division by a zero \<^verbatim>\<open>deltaScale\<close>
  or a zero-sized reference rectangle (which HOL evaluates to 0). In particular
  \<^verbatim>\<open>getPointerDistance\<close> is the exact Euclidean distance here, where the source rounds
  \<^verbatim>\<open>x * x + y * y\<close> and its square root to doubles: within a rounding error of
  \<^verbatim>\<open>dragMin\<close> or \<^verbatim>\<open>dragMax\<close> the two can classify differently, so nothing below is
  stated about distances that close to a bound. The calls to
  \<^verbatim>\<open>logger.debug\<close> have no effect on the tracker and are left out. Subscriber callbacks
  are opaque observers: a dispatched event records which callbacks received it, in order.
\<close>

subsection \<open>Enumerations\<close>

datatype PointerMode = Draw | Drag

text \<open>
  \<^verbatim>\<open>OriginX\<close> and \<^verbatim>\<open>OriginY\<close> are two names for the same three string values:
  \<^verbatim>\<open>Left = Top = 'start'\<close>, \<^verbatim>\<open>Center = 'center'\<close>, \<^verbatim>\<open>Right = Bottom = 'end'\<close>.
\<close>

datatype Origin = Start | Center | End

datatype PointerChangeType =
  Up | Down | Move | Menu | DrawStart | DrawEnd | DragStart | DragEnd | Cancel

text \<open>\<^verbatim>\<open>enum Mouse { Left = 0, Middle = 1, Right = 2 }\<close> of \<^verbatim>\<open>src/utils/mouse.ts\<close>.\<close>

definition Mouse_Left :: int where "Mouse_Left = 0"
definition Mouse_Middle :: int where "Mouse_Middle = 1"
definition Mouse_Right :: int where "Mouse_Right = 2"

subsection \<open>Inputs from the DOM\<close>

type_synonym element = nat
type_synonym callback = nat

record PointerEvent =
  pointerId :: int
  isPrimary :: bool
  altKey :: bool
  shiftKey :: bool
  target :: element
  pressure :: real
  ev_clientX :: real
  ev_clientY :: real
  pointerType :: string
  button :: int

record KeyboardEvent =
  key :: string
  code :: string

record DOMRect =
  rect_left :: real
  rect_top :: real
  rect_width :: real
  rect_height :: real

subsection \<open>Options\<close>

text \<open>
  A property of an options object is absent, present with the value \<^verbatim>\<open>undefined\<close>, or
  present with a value. \<^verbatim>\<open>p ?? d\<close> and a destructuring default both take \<open>d\<close> unless
  the property holds a value; \<^verbatim>\<open>'k' in o\<close> asks for presence only; \<^verbatim>\<open>Object.assign\<close>
  copies every present property, \<^verbatim>\<open>undefined\<close> included.
\<close>

datatype 'a property = Absent | Undefined | Value 'a

fun nullish :: "'a property \<Rightarrow> 'a \<Rightarrow> 'a" where
  "nullish (Value v) d = v"
| "nullish Undefined d = d"
| "nullish Absent d = d"

fun has_property :: "'a property \<Rightarrow> bool" where
  "has_property Absent = False"
| "has_property Undefined = True"
| "has_property (Value v) = True"

fun assign_property :: "'a property \<Rightarrow> 'a property \<Rightarrow> 'a property" where
  "assign_property old Absent = old"
| "assign_property old Undefined = Undefined"
| "assign_property old (Value v) = Value v"

record PointerOptions =
  o_name :: "string property"
  o_mode :: "PointerMode property"
  o_passive :: "bool property"
  o_scaleDeltas :: "bool property"
  o_scaleClients :: "bool property"
  o_relative :: "element property"
  o_originX :: "Origin property"
  o_originY :: "Origin property"
  o_ratioLock :: "bool property"
  o_deltaScale :: "real property"
  o_deltaZoom :: "real property"
  o_dragMin :: "real property"
  o_dragMax :: "real property"
  o_touchOnly :: "bool property"
  o_mouseOnly :: "bool property"

definition object_assign :: "PointerOptions \<Rightarrow> PointerOptions \<Rightarrow> PointerOptions" where
  "object_assign old new =
     \<lparr> o_name = assign_property (o_name old) (o_name new),
       o_mode = assign_property (o_mode old) (o_mode new),
       o_passive = assign_property (o_passive old) (o_passive new),
       o_scaleDeltas = assign_property (o_scaleDeltas old) (o_scaleDeltas new),
       o_scaleClients = assign_property (o_scaleClients old) (o_scaleClients new),
       o_relative = assign_property (o_relative old) (o_relative new),
       o_originX = assign_property (o_originX old) (o_originX new),
       o_originY = assign_property (o_originY old) (o_originY new),
       o_ratioLock = assign_property (o_ratioLock old) (o_ratioLock new),
       o_deltaScale = assign_property (o_deltaScale old) (o_deltaScale new),
       o_deltaZoom = assign_property (o_deltaZoom old) (o_deltaZoom new),
       o_dragMin = assign_property (o_dragMin old) (o_dragMin new),
       o_dragMax = assign_property (o_dragMax old) (o_dragMax new),
       o_touchOnly = assign_property (o_touchOnly old) (o_touchOnly new),
       o_mouseOnly = assign_property (o_mouseOnly old) (o_mouseOnly new) \<rparr>"

text \<open>The empty options object \<^verbatim>\<open>{}\<close>.\<close>

definition no_options :: PointerOptions where
  "no_options =
     \<lparr> o_name = Absent, o_mode = Absent, o_passive = Absent, o_scaleDeltas = Absent,
       o_scaleClients = Absent, o_relative = Absent, o_originX = Absent, o_originY = Absent,
       o_ratioLock = Absent, o_deltaScale = Absent, o_deltaZoom = Absent, o_dragMin = Absent,
       o_dragMax = Absent, o_touchOnly = Absent, o_mouseOnly = Absent \<rparr>"

subsection \<open>The contact registry and the subscriber set\<close>

text \<open>
  A JavaScript \<^verbatim>\<open>Map\<close> iterates in insertion order, and \<^verbatim>\<open>set\<close> on a key that is
  present replaces the value in place; a \<^verbatim>\<open>Set\<close> iterates in insertion order and
  \<^verbatim>\<open>add\<close> of a member changes nothing. Both are lists here.
\<close>

fun map_set :: "'k \<Rightarrow> 'v \<Rightarrow> ('k \<times> 'v) list \<Rightarrow> ('k \<times> 'v) list" where
  "map_set k v [] = [(k, v)]"
| "map_set k v (p # ps) = (if fst p = k then (k, v) # ps else p # map_set k v ps)"

definition map_delete :: "'k \<Rightarrow> ('k \<times> 'v) list \<Rightarrow> ('k \<times> 'v) list" where
  "map_delete k ps = filter (\<lambda>p. fst p \<noteq> k) ps"

definition map_values :: "('k \<times> 'v) list \<Rightarrow> 'v list" where
  "map_values ps = map snd ps"

definition set_add :: "'a \<Rightarrow> 'a list \<Rightarrow> 'a list" where
  "set_add x xs = (if x \<in> set xs then xs else xs @ [x])"

definition set_delete :: "'a \<Rightarrow> 'a list \<Rightarrow> 'a list" where
  "set_delete x xs = filter (\<lambda>y. y \<noteq> x) xs"

subsection \<open>The module-level functions\<close>

definition snapOrigin :: "real \<Rightarrow> real \<Rightarrow> Origin \<Rightarrow> real \<times> real" where
  "snapOrigin start delta origin =
     (let size = \<bar>delta\<bar> in
      if origin = Start then
        ((if delta < 0 then start - size else start), size)
      else if origin = Center then
        (let size2 = size * 2 in (start - size2 / 2, size2))
      else
        ((if delta < 0 then start else start - size), size))"

definition getEventType :: "PointerMode option \<Rightarrow> bool \<Rightarrow> PointerChangeType" where
  "getEventType m is_end =
     (case m of
        Some Draw \<Rightarrow> (if is_end then DrawEnd else DrawStart)
      | Some Drag \<Rightarrow> (if is_end then DragEnd else DragStart)
      | None \<Rightarrow> (if is_end then Up else Down))"

definition getPointerDistance :: "(int \<times> PointerEvent) list \<Rightarrow> real" where
  "getPointerDistance touches =
     (if length touches = 1 then 0
      else if length touches = 2 then
        (case map_values touches of
           t1 # t2 # _ \<Rightarrow>
             (let x = ev_clientX t1 - ev_clientX t2;
                  y = ev_clientY t1 - ev_clientY t2
              in sqrt (x * x + y * y))
         | _ \<Rightarrow> 0)
      else 0)"

definition getPointerMode ::
  "(int \<times> PointerEvent) list \<Rightarrow> real \<Rightarrow> real \<Rightarrow> bool \<Rightarrow> PointerMode option" where
  "getPointerMode ps dmin dmax space =
     (if length ps = 1 then
        (case map_values ps of
           p # _ \<Rightarrow>
             if pointerType p = ''mouse'' \<and> (button p = Mouse_Middle \<or> space) then Some Drag
             else if space then Some Drag else Some Draw
         | [] \<Rightarrow> None)
      else if length ps \<ge> 2 then
        (let distance = getPointerDistance ps in
         if distance > dmin \<and> distance < dmax then Some Drag else None)
      else None)"

subsection \<open>The tracker's state\<close>

text \<open>
  The variables of the closure created by \<^verbatim>\<open>pointer(element, options)\<close>, the
  \<^verbatim>\<open>options\<close> object itself (which \<^verbatim>\<open>flush\<close> reads and \<^verbatim>\<open>update\<close> writes), the
  contact registry \<^verbatim>\<open>pointers\<close> and the \<^verbatim>\<open>subscribers\<close> set.
\<close>

record Tracker =
  element :: element
  options :: PointerOptions
  mode :: "PointerMode option"
  name :: string
  relative :: element
  "passive" :: bool
  scaleDeltas :: bool
  scaleClients :: bool
  deltaScale :: real
  deltaZoom :: real
  originX :: Origin
  originY :: Origin
  ratioLock :: bool
  dragMin :: real
  dragMax :: real
  touchOnly :: bool
  mouseOnly :: bool
  startX :: real
  startY :: real
  clientX :: real
  clientY :: real
  offsetX :: real
  offsetY :: real
  deltaX :: real
  deltaY :: real
  clientLeft :: real
  clientTop :: real
  clientWidth :: real
  clientHeight :: real
  spaceKey :: bool
  activeMode :: "PointerMode option"
  activeTarget :: "element option"
  tracking :: bool
  pointers :: "(int \<times> PointerEvent) list"
  subscribers :: "callback list"

text \<open>
  A dispatched change event: its type, the \<^verbatim>\<open>details\<close> snapshot, the target, and the
  subscriber callbacks that were called with it, in order.
\<close>

record PointerChange =
  d_type :: PointerChangeType
  d_clientX :: real
  d_clientY :: real
  d_offsetX :: real
  d_offsetY :: real
  d_startX :: real
  d_startY :: real
  d_deltaX :: real
  d_deltaY :: real
  d_clientLeft :: real
  d_clientTop :: real
  d_clientWidth :: real
  d_clientHeight :: real
  d_originX :: Origin
  d_originY :: Origin
  d_isRatioLocked :: bool
  d_isMoving :: bool
  d_isDrawing :: bool
  d_isDragging :: bool
  d_mode :: "PointerMode option"
  d_target :: "element option"
  d_callbacks :: "callback list"

definition pointer :: "element \<Rightarrow> PointerOptions \<Rightarrow> Tracker" where
  "pointer el opts =
     (let originX0 = nullish (o_originX opts) Start;
          originY0 = nullish (o_originY opts) Start;
          ratioLock0 = nullish (o_ratioLock opts) False;
          opts1 = (if \<not> has_property (o_originX opts)
                   then opts\<lparr>o_originX := Value originX0\<rparr> else opts);
          opts2 = (if \<not> has_property (o_originY opts1)
                   then opts1\<lparr>o_originY := Value originY0\<rparr> else opts1);
          opts3 = (if \<not> has_property (o_ratioLock opts2)
                   then opts2\<lparr>o_ratioLock := Value ratioLock0\<rparr> else opts2)
      in \<lparr> element = el,
           options = opts3,
           mode = (case o_mode opts of Value m \<Rightarrow> Some m | _ \<Rightarrow> None),
           name = nullish (o_name opts) ''global'',
           relative = nullish (o_relative opts) el,
           passive = nullish (o_passive opts) False,
           scaleDeltas = nullish (o_scaleDeltas opts) False,
           scaleClients = nullish (o_scaleClients opts) False,
           deltaScale = nullish (o_deltaScale opts) 1,
           deltaZoom = nullish (o_deltaZoom opts) 1,
           originX = originX0,
           originY = originY0,
           ratioLock = ratioLock0,
           dragMin = nullish (o_dragMin opts) 50,
           dragMax = nullish (o_dragMax opts) 125,
           touchOnly = nullish (o_touchOnly opts) False,
           mouseOnly = nullish (o_mouseOnly opts) False,
           startX = 0, startY = 0, clientX = 0, clientY = 0,
           offsetX = 0, offsetY = 0, deltaX = 0, deltaY = 0,
           clientLeft = 0, clientTop = 0, clientWidth = 0, clientHeight = 0,
           spaceKey = False,
           activeMode = None,
           activeTarget = None,
           tracking = False,
           pointers = [],
           subscribers = [] \<rparr>)"

definition dispatch :: "PointerChangeType \<Rightarrow> Tracker \<Rightarrow> PointerChange" where
  "dispatch ty s =
     \<lparr> d_type = ty,
       d_clientX = clientX s, d_clientY = clientY s,
       d_offsetX = offsetX s, d_offsetY = offsetY s,
       d_startX = startX s, d_startY = startY s,
       d_deltaX = deltaX s, d_deltaY = deltaY s,
       d_clientLeft = clientLeft s, d_clientTop = clientTop s,
       d_clientWidth = clientWidth s, d_clientHeight = clientHeight s,
       d_originX = originX s, d_originY = originY s,
       d_isRatioLocked = ratioLock s,
       d_isMoving = (ty = Move),
       d_isDrawing = (tracking s \<and> activeMode s = Some Draw),
       d_isDragging = (tracking s \<and> activeMode s = Some Drag),
       d_mode = activeMode s,
       d_target = activeTarget s,
       d_callbacks = subscribers s \<rparr>"

definition flush :: "Tracker \<Rightarrow> Tracker" where
  "flush s =
     s\<lparr> startX := 0, startY := 0, deltaX := 0, deltaY := 0,
        clientLeft := 0, clientTop := 0, clientWidth := 0, clientHeight := 0,
        originX := nullish (o_originX (options s)) (originX s),
        originY := nullish (o_originY (options s)) (originY s),
        ratioLock := nullish (o_ratioLock (options s)) (ratioLock s),
        tracking := False,
        activeMode := None,
        activeTarget := None,
        pointers := [] \<rparr>"

definition isAcceptable :: "Tracker \<Rightarrow> bool" where
  "isAcceptable s =
     (if activeMode s = None then False
      else if \<not> spaceKey s \<and> mode s \<noteq> None \<and> activeMode s \<noteq> mode s then False
      else True)"

subsection \<open>The listeners\<close>

definition start :: "PointerEvent \<Rightarrow> Tracker \<Rightarrow> Tracker \<times> PointerChange list" where
  "start e s =
     (let s1 = s\<lparr>pointers := map_set (pointerId e) e (pointers s)\<rparr>;
          s2 = s1\<lparr>activeMode :=
                    getPointerMode (pointers s1) (dragMin s1) (dragMax s1) (spaceKey s1)\<rparr>
      in if isPrimary e then
           (let s3 = (if altKey e then s2\<lparr>originX := Center, originY := Center\<rparr> else s2);
                s4 = (if shiftKey e then s3\<lparr>ratioLock := True\<rparr> else s3);
                s5 = s4\<lparr>activeTarget := Some (target e)\<rparr>
            in (s5, [dispatch Down s5]))
         else (s2, []))"

text \<open>The ratio lock of \<^verbatim>\<open>move\<close>, line 211.\<close>

definition lockRatio :: "real \<Rightarrow> real \<Rightarrow> real" where
  "lockRatio dx dy =
     (if dy < 0 then (if dx < 0 then dx else - dx) else (if dx < 0 then - dx else dx))"

text \<open>
  \<^verbatim>\<open>move\<close> in three parts: the block that starts tracking on the first qualifying move
  (lines 190 to 203), the block that derives the deltas and the rectangle while tracking
  (lines 205 to 220), and the listener itself, which runs both after its early returns
  and the update of the client position, and dispatches \<^verbatim>\<open>Move\<close> last.
\<close>

definition move_start_tracking ::
  "PointerEvent \<Rightarrow> Tracker \<Rightarrow> Tracker \<times> PointerChange list" where
  "move_start_tracking e s =
     (if pressure e \<noteq> 0 \<and> \<not> tracking s \<and> isAcceptable s then
        (let s1 = s\<lparr>tracking := True\<rparr>;
             s2 = (if activeMode s1 = Some Draw
                   then s1\<lparr>startX := clientX s1, startY := clientY s1\<rparr>
                   else s1\<lparr>startX := ev_clientX e, startY := ev_clientY e\<rparr>)
         in (s2, [dispatch (getEventType (activeMode s2) False) s2]))
      else (s, []))"

definition move_deltas :: "PointerEvent \<Rightarrow> Tracker \<Rightarrow> Tracker" where
  "move_deltas e s =
     (if tracking s then
        (if activeMode s = Some Draw then
           (let dx = clientX s - startX s;
                dy0 = clientY s - startY s;
                dy = (if ratioLock s then lockRatio dx dy0 else dy0);
                h = snapOrigin (startX s) dx (originX s);
                v = snapOrigin (startY s) dy (originY s)
            in s\<lparr> deltaX := dx, deltaY := dy,
                  clientLeft := fst h, clientWidth := snd h,
                  clientTop := fst v, clientHeight := snd v \<rparr>)
         else if activeMode s = Some Drag then
           s\<lparr> deltaX := ev_clientX e - startX s, deltaY := ev_clientY e - startY s \<rparr>
         else s)
      else s)"

definition move ::
  "(element \<Rightarrow> DOMRect) \<Rightarrow> PointerEvent \<Rightarrow> Tracker \<Rightarrow> Tracker \<times> PointerChange list" where
  "move getBoundingClientRect e s =
     (if (passive s \<and> pressure e = 0) \<or> \<not> isPrimary e then (s, [])
      else
        (let rect = getBoundingClientRect (relative s);
             cx = (ev_clientX e - rect_left rect * (if scaleClients s then deltaZoom s else 1))
                    / deltaScale s;
             cy = (ev_clientY e - rect_top rect * (if scaleClients s then deltaZoom s else 1))
                    / deltaScale s
         in if cx = clientX s \<and> cy = clientY s then (s, [])
            else
              (let s1 = s\<lparr> clientX := cx, clientY := cy,
                           offsetX := (cx / rect_width rect) * 100,
                           offsetY := (cy / rect_height rect) * 100 \<rparr>;
                   (s2, out1) = move_start_tracking e s1;
                   s3 = move_deltas e s2
               in (s3, out1 @ [dispatch Move s3]))))"

text \<open>
  The tracker after the client position and the offsets have been written (lines 185 to
  188), which is where a \<^verbatim>\<open>move\<close> that passed its early returns continues from.
\<close>

definition move_located :: "(element \<Rightarrow> DOMRect) \<Rightarrow> PointerEvent \<Rightarrow> Tracker \<Rightarrow> Tracker" where
  "move_located getBoundingClientRect e s =
     (let rect = getBoundingClientRect (relative s);
          cx = (ev_clientX e - rect_left rect * (if scaleClients s then deltaZoom s else 1))
                 / deltaScale s;
          cy = (ev_clientY e - rect_top rect * (if scaleClients s then deltaZoom s else 1))
                 / deltaScale s
      in s\<lparr> clientX := cx, clientY := cy,
            offsetX := (cx / rect_width rect) * 100,
            offsetY := (cy / rect_height rect) * 100 \<rparr>)"

definition end' :: "PointerEvent \<Rightarrow> Tracker \<Rightarrow> Tracker \<times> PointerChange list" where
  "end' e s =
     (let s1 = s\<lparr>pointers := map_delete (pointerId e) (pointers s)\<rparr>;
          ended = (activeMode s1 \<noteq> None \<and> tracking s1);
          out1 = (if ended then [dispatch (getEventType (activeMode s1) True) s1] else []);
          s2 = (if ended then flush s1 else s1);
          emptied = (length (pointers s2) = 0);
          out2 = (if emptied then [dispatch Up s2] else []);
          s3 = (if emptied then flush s2 else s2)
      in (s3, out1 @ out2))"

definition leave :: "PointerEvent \<Rightarrow> Tracker \<Rightarrow> Tracker \<times> PointerChange list" where
  "leave e s =
     (if activeMode s = None \<or> \<not> isPrimary e \<or> \<not> tracking s then (s, [])
      else (s, [dispatch Cancel s]))"

definition keydown :: "KeyboardEvent \<Rightarrow> Tracker \<Rightarrow> Tracker \<times> PointerChange list" where
  "keydown e s =
     (let canceled = (key e = ''Escape'' \<and> activeMode s \<noteq> None \<and> tracking s);
          out = (if canceled then [dispatch Cancel s] else []);
          s1 = (if canceled then flush s else s);
          s2 = (if code e = ''Space'' then s1\<lparr>spaceKey := True\<rparr> else s1)
      in (s2, out))"

definition keyup :: "KeyboardEvent \<Rightarrow> Tracker \<Rightarrow> Tracker \<times> PointerChange list" where
  "keyup e s = ((if code e = ''Space'' then s\<lparr>spaceKey := False\<rparr> else s), [])"

subsection \<open>The returned handle\<close>

definition update :: "PointerOptions option \<Rightarrow> Tracker \<Rightarrow> Tracker" where
  "update newOptions s =
     (case newOptions of
        None \<Rightarrow> s
      | Some n \<Rightarrow>
          s\<lparr> options := object_assign (options s) n,
             mode := (case o_mode n of Value m \<Rightarrow> Some m | _ \<Rightarrow> mode s),
             name := nullish (o_name n) (name s),
             deltaScale := nullish (o_deltaScale n) (deltaScale s),
             deltaZoom := nullish (o_deltaZoom n) (deltaZoom s),
             dragMin := nullish (o_dragMin n) (dragMin s),
             dragMax := nullish (o_dragMax n) (dragMax s),
             originX := nullish (o_originX n) (originX s),
             originY := nullish (o_originY n) (originY s),
             ratioLock := nullish (o_ratioLock n) (ratioLock s),
             relative := nullish (o_relative n) (relative s),
             passive := nullish (o_passive n) (passive s),
             scaleDeltas := nullish (o_scaleDeltas n) (scaleDeltas s),
             scaleClients := nullish (o_scaleClients n) (scaleClients s),
             touchOnly := nullish (o_touchOnly n) (touchOnly s),
             mouseOnly := nullish (o_mouseOnly n) (mouseOnly s) \<rparr>)"

text \<open>
  \<^verbatim>\<open>subscribe\<close> adds the callback to the set and returns the closure that deletes that
  callback from the set.
\<close>

definition unsubscribe :: "callback \<Rightarrow> Tracker \<Rightarrow> Tracker" where
  "unsubscribe cb s = s\<lparr>subscribers := set_delete cb (subscribers s)\<rparr>"

definition subscribe :: "callback \<Rightarrow> Tracker \<Rightarrow> Tracker \<times> (Tracker \<Rightarrow> Tracker)" where
  "subscribe cb s = (s\<lparr>subscribers := set_add cb (subscribers s)\<rparr>, unsubscribe cb)"

subsection \<open>Running the tracker on a sequence of inputs\<close>

datatype Input =
    PointerDown PointerEvent
  | PointerMove "element \<Rightarrow> DOMRect" PointerEvent
  | PointerUp PointerEvent
  | PointerLeave PointerEvent
  | KeyDown KeyboardEvent
  | KeyUp KeyboardEvent
  | Update "PointerOptions option"
  | Subscribe callback
  | Unsubscribe callback

fun step :: "Input \<Rightarrow> Tracker \<Rightarrow> Tracker \<times> PointerChange list" where
  "step (PointerDown e) s = start e s"
| "step (PointerMove r e) s = move r e s"
| "step (PointerUp e) s = end' e s"
| "step (PointerLeave e) s = leave e s"
| "step (KeyDown e) s = keydown e s"
| "step (KeyUp e) s = keyup e s"
| "step (Update n) s = (update n s, [])"
| "step (Subscribe cb) s = (fst (subscribe cb s), [])"
| "step (Unsubscribe cb) s = (unsubscribe cb s, [])"

fun run :: "Input list \<Rightarrow> Tracker \<Rightarrow> Tracker \<times> PointerChange list" where
  "run [] s = (s, [])"
| "run (i # is) s =
     (let (s1, out1) = step i s; (s2, out2) = run is s1 in (s2, out1 @ out2))"

subsection \<open>Invariants of the state\<close>

definition registry_inv :: "Tracker \<Rightarrow> bool" where
  "registry_inv s = (pointers s = [] \<longrightarrow> activeMode s = None)"

definition tracking_inv :: "Tracker \<Rightarrow> bool" where
  "tracking_inv s = (tracking s \<longrightarrow> activeMode s \<noteq> None)"

text \<open>
  A pointer-down is an unclassified join when it arrives while the tracker is tracking and
  the registry it leaves is given no mode. A sequence of inputs has no unclassified join
  when none of its inputs is one, each taken in the state the tracker has then.
\<close>

fun unclassified_join :: "Input \<Rightarrow> Tracker \<Rightarrow> bool" where
  "unclassified_join (PointerDown e) s =
     (tracking s \<and>
      getPointerMode (map_set (pointerId e) e (pointers s)) (dragMin s) (dragMax s) (spaceKey s)
        = None)"
| "unclassified_join i s = False"

fun no_unclassified_join :: "Input list \<Rightarrow> Tracker \<Rightarrow> bool" where
  "no_unclassified_join [] s = True"
| "no_unclassified_join (i # is) s =
     (\<not> unclassified_join i s \<and> no_unclassified_join is (fst (step i s)))"

subsection \<open>Ignoring the \<^verbatim>\<open>touchOnly\<close> and \<^verbatim>\<open>mouseOnly\<close> options\<close>

text \<open>
  Two option objects, two trackers or two inputs are alike up to \<^verbatim>\<open>touchOnly\<close> and
  \<^verbatim>\<open>mouseOnly\<close> when they are equal once these two are overwritten.
\<close>

definition forget_options :: "PointerOptions \<Rightarrow> PointerOptions" where
  "forget_options opts = opts\<lparr>o_touchOnly := Absent, o_mouseOnly := Absent\<rparr>"

definition forget :: "Tracker \<Rightarrow> Tracker" where
  "forget s = s\<lparr>touchOnly := False, mouseOnly := False,
                options := forget_options (options s)\<rparr>"

fun forget_input :: "Input \<Rightarrow> Input" where
  "forget_input (Update (Some n)) = Update (Some (forget_options n))"
| "forget_input i = i"

subsection \<open>Concrete inputs\<close>

text \<open>A pressed contact with no modifier key, and a reference rectangle at the origin.\<close>

definition contact :: "int \<Rightarrow> bool \<Rightarrow> string \<Rightarrow> real \<Rightarrow> real \<Rightarrow> PointerEvent" where
  "contact i primary ty x y =
     \<lparr> pointerId = i, isPrimary = primary, altKey = False, shiftKey = False, target = 0,
       pressure = 1 / 2, ev_clientX = x, ev_clientY = y, pointerType = ty, button = 0 \<rparr>"

definition page :: "element \<Rightarrow> DOMRect" where
  "page el = \<lparr> rect_left = 0, rect_top = 0, rect_width = 100, rect_height = 100 \<rparr>"

definition escape_key :: KeyboardEvent where
  "escape_key = \<lparr> key = ''Escape'', code = ''Escape'' \<rparr>"

text \<open>
  A mouse press with Shift held at (100, 100) and the first move, which starts a
  ratio-locked draw there; the move that follows goes to (60, 110).
\<close>

definition ratio_lock_gesture :: "Input list" where
  "ratio_lock_gesture =
     [PointerDown ((contact 1 True ''mouse'' 100 100)\<lparr>shiftKey := True\<rparr>),
      PointerMove page (contact 1 True ''mouse'' 100 100)]"

definition ratio_lock_move :: "PointerChange list" where
  "ratio_lock_move =
     snd (move page (contact 1 True ''mouse'' 60 110)
            (fst (run ratio_lock_gesture (pointer 0 no_options))))"

text \<open>A touch that starts a draw and then leaves the host element.\<close>

definition leave_gesture :: "Input list" where
  "leave_gesture =
     [PointerDown (contact 1 True ''touch'' 100 100),
      PointerMove page (contact 1 True ''touch'' 110 100),
      PointerLeave (contact 1 True ''touch'' 110 100)]"

text \<open>The same touch, canceled with the Escape key.\<close>

definition escape_gesture :: "Input list" where
  "escape_gesture =
     [PointerDown (contact 1 True ''touch'' 100 100),
      PointerMove page (contact 1 True ''touch'' 110 100),
      KeyDown escape_key]"

text \<open>Two touches 200 pixels apart, outside the default band of 50 to 125.\<close>

definition wide_touches :: "Input list" where
  "wide_touches =
     [PointerDown (contact 1 True ''touch'' 0 0),
      PointerDown (contact 2 False ''touch'' 200 0)]"

text \<open>A touch that starts a draw, joined by a second touch 200 pixels away.\<close>

definition joined_gesture :: "Input list" where
  "joined_gesture =
     [PointerDown (contact 1 True ''touch'' 0 0),
      PointerMove page (contact 1 True ''touch'' 10 0),
      PointerDown (contact 2 False ''touch'' 200 0)]"

text \<open>The same, with both touches released afterwards, the second one first.\<close>

definition joined_release :: "Input list" where
  "joined_release =
     joined_gesture @
     [PointerUp (contact 2 False ''touch'' 200 0),
      PointerUp (contact 1 True ''touch'' 10 0)]"

text \<open>A touch that goes down and up again.\<close>

definition tap :: "Input list" where
  "tap =
     [PointerDown (contact 1 True ''touch'' 0 0),
      PointerUp (contact 1 True ''touch'' 0 0)]"


text \<open>
  Two runs of a mouse draw that differ only in \<^verbatim>\<open>touchOnly\<close> and \<^verbatim>\<open>mouseOnly\<close>, in the
  initial options and in the options passed to \<^verbatim>\<open>update\<close>.
\<close>

definition touch_only_options :: PointerOptions where
  "touch_only_options = no_options\<lparr>o_touchOnly := Value True\<rparr>"

definition mouse_only_options :: PointerOptions where
  "mouse_only_options = no_options\<lparr>o_mouseOnly := Value True\<rparr>"

definition touch_only_run :: "Input list" where
  "touch_only_run =
     [PointerDown (contact 1 True ''mouse'' 100 100),
      Update (Some mouse_only_options),
      PointerMove page (contact 1 True ''mouse'' 140 70)]"

definition mouse_only_run :: "Input list" where
  "mouse_only_run =
     [PointerDown (contact 1 True ''mouse'' 100 100),
      Update (Some touch_only_options),
      PointerMove page (contact 1 True ''mouse'' 140 70)]"

text \<open>Three touches, pairwise 90 pixels or more apart.\<close>

definition three_touches :: "(int \<times> PointerEvent) list" where
  "three_touches =
     [(1, contact 1 True ''touch'' 0 0),
      (2, contact 2 False ''touch'' 90 0),
      (3, contact 3 False ''touch'' 0 90)]"

section \<open>Properties\<close>

subsection \<open>The module-level functions\<close>

text \<open>
  Claim C4, as the code has it. The size returned by \<^verbatim>\<open>snapOrigin\<close> is \<open>|D|\<close> for the anchors
  \<^verbatim>\<open>start\<close> and \<^verbatim>\<open>end\<close> and \<open>2 |D|\<close> for the anchor \<^verbatim>\<open>center\<close>, for every start coordinate \<open>S\<close>
  and signed delta \<open>D\<close>; when \<open>D = 0\<close> the returned position is \<open>S\<close> for every anchor.
\<close>

theorem snapOrigin_size_position:
  "snd (snapOrigin S D Start) = \<bar>D\<bar> \<and>
   snd (snapOrigin S D End) = \<bar>D\<bar> \<and>
   snd (snapOrigin S D Center) = 2 * \<bar>D\<bar> \<and>
   fst (snapOrigin S 0 origin) = S"
  by (cases origin) (simp_all add: snapOrigin_def Let_def)

text \<open>
  Claim C4 as stated fails for the anchor \<^verbatim>\<open>center\<close>: with \<open>S = 0\<close> and \<open>D = 5\<close> the size is
  10, not 5.
\<close>

theorem snapOrigin_center_counterexample:
  "snd (snapOrigin 0 5 Center) \<noteq> \<bar>5\<bar>"
  by (simp add: snapOrigin_def Let_def)

text \<open>
  With exactly two contacts the mode is \<^verbatim>\<open>Drag\<close> exactly when the distance that
  \<^verbatim>\<open>getPointerDistance\<close> computes lies strictly between the two bounds.
\<close>

lemma two_contacts_mode:
  "length ps = 2 \<Longrightarrow>
   (getPointerMode ps dmin dmax space = Some Drag) =
   (dmin < getPointerDistance ps \<and> getPointerDistance ps < dmax)"
  by (simp add: getPointerMode_def Let_def)

text \<open>
  Claim C9. With three or more contacts in the registry and a non-negative \<^verbatim>\<open>dragMin\<close>, the
  distance computed is 0 and the mode is undefined.
\<close>

theorem three_contacts_no_mode:
  assumes "length ps \<ge> 3" "0 \<le> dmin"
  shows "getPointerDistance ps = 0 \<and> getPointerMode ps dmin dmax space = None"
  using assms by (simp add: getPointerMode_def getPointerDistance_def Let_def)


lemma map_set_not_Nil: "map_set k v ps \<noteq> []"
  by (cases ps) auto

subsection \<open>Subscriptions\<close>



subsection \<open>The parts of the move listener\<close>

text \<open>
  What the parts of \<^verbatim>\<open>move\<close> leave alone and what they write, and \<^verbatim>\<open>move\<close> in terms of them.
\<close>

lemma start_tracking_fields:
  "pointers (fst (move_start_tracking e s)) = pointers s"
  "activeMode (fst (move_start_tracking e s)) = activeMode s"
  "ratioLock (fst (move_start_tracking e s)) = ratioLock s"
  "clientX (fst (move_start_tracking e s)) = clientX s"
  "clientY (fst (move_start_tracking e s)) = clientY s"
  by (simp_all add: move_start_tracking_def Let_def)

lemma start_tracking_tracking:
  "tracking (fst (move_start_tracking e s)) = (tracking s \<or> (pressure e \<noteq> 0 \<and> isAcceptable s))"
  by (auto simp add: move_start_tracking_def Let_def)

lemma start_tracking_events:
  "ev \<in> set (snd (move_start_tracking e s)) \<Longrightarrow> d_type ev \<noteq> Move \<and> \<not> tracking s \<and> isAcceptable s"
  by (auto simp add: move_start_tracking_def Let_def dispatch_def getEventType_def split: if_splits option.splits PointerMode.splits)

lemma move_deltas_fields:
  "pointers (move_deltas e s) = pointers s"
  "activeMode (move_deltas e s) = activeMode s"
  "tracking (move_deltas e s) = tracking s"
  "ratioLock (move_deltas e s) = ratioLock s"
  "clientX (move_deltas e s) = clientX s"
  "clientY (move_deltas e s) = clientY s"
  "startX (move_deltas e s) = startX s"
  "startY (move_deltas e s) = startY s"
  by (simp_all add: move_deltas_def Let_def)

lemma move_deltas_draw:
  "tracking s \<Longrightarrow> activeMode s = Some Draw \<Longrightarrow>
   deltaX (move_deltas e s) = clientX s - startX s \<and>
   deltaY (move_deltas e s) =
     (if ratioLock s then lockRatio (clientX s - startX s) (clientY s - startY s)
      else clientY s - startY s)"
  by (simp add: move_deltas_def Let_def)

lemma move_located_fields:
  "tracking (move_located r e s) = tracking s"
  "activeMode (move_located r e s) = activeMode s"
  "pointers (move_located r e s) = pointers s"
  "mode (move_located r e s) = mode s"
  "spaceKey (move_located r e s) = spaceKey s"
  by (simp_all add: move_located_def Let_def)

lemma move_unfold:
  "move r e s =
     (if (passive s \<and> pressure e = 0) \<or> \<not> isPrimary e then (s, [])
      else if clientX (move_located r e s) = clientX s \<and> clientY (move_located r e s) = clientY s
      then (s, [])
      else (move_deltas e (fst (move_start_tracking e (move_located r e s))),
            snd (move_start_tracking e (move_located r e s)) @
            [dispatch Move (move_deltas e (fst (move_start_tracking e (move_located r e s))))]))"
  by (simp add: move_def move_located_def Let_def case_prod_beta)

lemma move_cases:
  "move r e s = (s, []) \<or>
   move r e s = (move_deltas e (fst (move_start_tracking e (move_located r e s))),
                 snd (move_start_tracking e (move_located r e s)) @
                 [dispatch Move (move_deltas e (fst (move_start_tracking e (move_located r e s))))])"
  by (simp add: move_def move_located_def Let_def case_prod_beta)

lemma isAcceptable_mode: "isAcceptable s \<Longrightarrow> activeMode s \<noteq> None"
  by (simp add: isAcceptable_def split: if_splits)

lemma move_keeps_registry: "pointers (fst (move r e s)) = pointers s"
  using move_cases [of r e s]
  by (auto simp: move_deltas_fields start_tracking_fields move_located_fields)

lemma move_keeps_mode: "activeMode (fst (move r e s)) = activeMode s"
  using move_cases [of r e s]
  by (auto simp: move_deltas_fields start_tracking_fields move_located_fields)

lemma move_tracking: "tracking (fst (move r e s)) \<Longrightarrow> tracking s \<or> activeMode s \<noteq> None"
  using move_cases [of r e s] isAcceptable_mode [of "move_located r e s"]
  by (auto simp: move_deltas_fields start_tracking_fields start_tracking_tracking move_located_fields)


text \<open>
  Claim C1, as the code has it. Every \<^verbatim>\<open>Move\<close> event that \<^verbatim>\<open>move\<close> dispatches while drawing
  with the ratio lock on carries \<open>deltaX = clientX - startX\<close> and a \<open>deltaY\<close> of magnitude
  \<open>|deltaX|\<close> whose sign is the sign of the unlocked \<open>deltaY = clientY - startY\<close>: negative
  when that is negative, non-negative otherwise. The sign does not come from \<open>deltaX\<close>.
\<close>

theorem ratio_lock_follows_deltaY:
  assumes "ev \<in> set (snd (move r e s))" "d_type ev = Move" "d_isDrawing ev" "d_isRatioLocked ev"
  shows "d_deltaX ev = d_clientX ev - d_startX ev \<and>
         d_deltaY ev = (if d_clientY ev - d_startY ev < 0 then - \<bar>d_deltaX ev\<bar> else \<bar>d_deltaX ev\<bar>)"
proof -
  define s2 where "s2 = fst (move_start_tracking e (move_located r e s))"
  from assms(1) move_cases [of r e s]
  have "ev \<in> set (snd (move_start_tracking e (move_located r e s))) \<or> ev = dispatch Move (move_deltas e s2)"
    by (auto simp: s2_def)
  with assms(2) have ev: "ev = dispatch Move (move_deltas e s2)"
    by (auto dest: start_tracking_events)
  from assms(3) have tr: "tracking s2" "activeMode s2 = Some Draw"
    by (simp_all add: ev dispatch_def move_deltas_fields)
  from assms(4) have rl: "ratioLock s2"
    by (simp add: ev dispatch_def move_deltas_fields)
  show ?thesis
    using move_deltas_draw [OF tr, of e] rl
    by (simp add: ev dispatch_def move_deltas_fields lockRatio_def)
qed

subsection \<open>The other listeners\<close>

lemma start_fields:
  "pointers (fst (start e s)) = map_set (pointerId e) e (pointers s)"
  "activeMode (fst (start e s)) =
     getPointerMode (map_set (pointerId e) e (pointers s)) (dragMin s) (dragMax s) (spaceKey s)"
  "tracking (fst (start e s)) = tracking s"
  by (simp_all add: start_def Let_def)

lemma flush_fields:
  "pointers (flush s) = []"
  "activeMode (flush s) = None"
  "tracking (flush s) = False"
  by (simp_all add: flush_def)

lemma end_cases:
  "fst (end' e s) = s\<lparr>pointers := map_delete (pointerId e) (pointers s)\<rparr> \<and>
     \<not> (activeMode s \<noteq> None \<and> tracking s) \<and> map_delete (pointerId e) (pointers s) \<noteq> []
   \<or> (\<exists>t. fst (end' e s) = flush t)"
  by (auto simp add: end'_def Let_def)

lemma keydown_cases:
  "(\<exists>t. fst (keydown e s) = flush t) \<or> (\<exists>t. fst (keydown e s) = (flush t)\<lparr>spaceKey := True\<rparr>) \<or>
   (fst (keydown e s) = s \<or> fst (keydown e s) = s\<lparr>spaceKey := True\<rparr>) \<and> \<not> (activeMode s \<noteq> None \<and> tracking s \<and> key e = ''Escape'')"
  by (auto simp add: keydown_def Let_def)

lemma update_fields:
  "pointers (update n s) = pointers s"
  "activeMode (update n s) = activeMode s"
  "tracking (update n s) = tracking s"
  by (simp_all add: update_def split: option.splits)

lemma pointer_initial:
  "pointers (pointer el opts) = []" "activeMode (pointer el opts) = None"
  "tracking (pointer el opts) = False"
  by (simp_all add: pointer_def Let_def)


subsection \<open>Invariants along a run\<close>

lemma fst_run_Cons: "fst (run (i # is) s) = fst (run is (fst (step i s)))"
  by (simp add: case_prod_beta)

lemma snd_run_Cons: "snd (run (i # is) s) = snd (step i s) @ snd (run is (fst (step i s)))"
  by (simp add: case_prod_beta)

lemma step_registry_inv: "registry_inv s \<Longrightarrow> registry_inv (fst (step i s))"
proof (cases i)
  case (PointerDown e)
  then show ?thesis by (simp add: registry_inv_def start_fields map_set_not_Nil)
next
  case (PointerMove r e)
  assume "registry_inv s"
  with PointerMove show ?thesis by (simp add: registry_inv_def move_keeps_registry move_keeps_mode)
next
  case (PointerUp e)
  with end_cases [of e s] show ?thesis by (auto simp: registry_inv_def flush_fields)
next
  case (PointerLeave e)
  assume "registry_inv s"
  with PointerLeave show ?thesis by (simp add: leave_def)
next
  case (KeyDown e)
  assume "registry_inv s"
  with KeyDown keydown_cases [of e s] show ?thesis by (auto simp: registry_inv_def flush_fields)
next
  case (KeyUp e)
  assume "registry_inv s"
  with KeyUp show ?thesis by (simp add: registry_inv_def keyup_def)
next
  case (Update n)
  assume "registry_inv s"
  with Update show ?thesis by (simp add: registry_inv_def update_fields)
next
  case (Subscribe cb)
  assume "registry_inv s"
  with Subscribe show ?thesis by (simp add: registry_inv_def subscribe_def)
next
  case (Unsubscribe cb)
  assume "registry_inv s"
  with Unsubscribe show ?thesis by (simp add: registry_inv_def unsubscribe_def)
qed

lemma run_registry_inv: "registry_inv s \<Longrightarrow> registry_inv (fst (run is s))"
proof (induction "is" arbitrary: s)
  case Nil
  then show ?case by simp
next
  case (Cons i "is")
  from Cons.prems have "registry_inv (fst (step i s))" by (rule step_registry_inv)
  then have "registry_inv (fst (run is (fst (step i s))))" by (rule Cons.IH)
  then show ?case by (simp only: fst_run_Cons)
qed

text \<open>
  Claim C5, as the code has it. After every sequence of inputs handled by a freshly created
  tracker, an empty contact registry implies an undefined mode. The converse fails.
\<close>

theorem empty_registry_mode_undefined:
  "pointers (fst (run is (pointer el opts))) = [] \<longrightarrow>
   activeMode (fst (run is (pointer el opts))) = None"
  using run_registry_inv [of "pointer el opts" "is"]
  by (simp add: registry_inv_def pointer_initial)

lemma end_tracking_inv: "tracking_inv s \<Longrightarrow> tracking_inv (fst (end' e s))"
  by (auto simp add: end'_def Let_def tracking_inv_def flush_fields)

lemma keydown_tracking_inv: "tracking_inv s \<Longrightarrow> tracking_inv (fst (keydown e s))"
  by (auto simp add: keydown_def Let_def tracking_inv_def flush_fields)

lemma step_tracking_inv:
  assumes "tracking_inv s" "\<not> unclassified_join i s"
  shows "tracking_inv (fst (step i s))"
proof (cases i)
  case (PointerDown e)
  with assms(2) show ?thesis
    by (auto simp: tracking_inv_def start_fields)
next
  case (PointerMove r e)
  with assms(1) move_tracking [of r e s] show ?thesis
    by (auto simp: tracking_inv_def move_keeps_mode)
next
  case (PointerUp e)
  with assms(1) show ?thesis by (simp add: end_tracking_inv)
next
  case (PointerLeave e)
  with assms(1) show ?thesis by (simp add: leave_def)
next
  case (KeyDown e)
  with assms(1) show ?thesis by (simp add: keydown_tracking_inv)
next
  case (KeyUp e)
  with assms(1) show ?thesis by (simp add: tracking_inv_def keyup_def)
next
  case (Update n)
  with assms(1) show ?thesis by (simp add: tracking_inv_def update_fields)
next
  case (Subscribe cb)
  with assms(1) show ?thesis by (simp add: tracking_inv_def subscribe_def)
next
  case (Unsubscribe cb)
  with assms(1) show ?thesis by (simp add: tracking_inv_def unsubscribe_def)
qed

lemma run_tracking_inv:
  "tracking_inv s \<Longrightarrow> no_unclassified_join is s \<Longrightarrow> tracking_inv (fst (run is s))"
proof (induction "is" arbitrary: s)
  case Nil
  then show ?case by simp
next
  case (Cons i "is")
  from Cons.prems have "tracking_inv (fst (step i s))" by (simp add: step_tracking_inv)
  moreover from Cons.prems have "no_unclassified_join is (fst (step i s))" by simp
  ultimately have "tracking_inv (fst (run is (fst (step i s))))" by (rule Cons.IH)
  then show ?case by (simp only: fst_run_Cons)
qed

text \<open>
  Everywhere else the listeners keep the invariant: after every sequence of inputs with no
  unclassified join, tracking implies that the mode is defined.
\<close>

lemma tracking_implies_mode_without_unclassified_join:
  assumes "no_unclassified_join is (pointer el opts)"
  shows "tracking (fst (run is (pointer el opts))) \<longrightarrow>
         activeMode (fst (run is (pointer el opts))) \<noteq> None"
  using run_tracking_inv [OF _ assms]
  by (simp add: tracking_inv_def pointer_initial)

subsection \<open>The options touchOnly and mouseOnly\<close>

text \<open>
  No listener reads \<^verbatim>\<open>touchOnly\<close> or \<^verbatim>\<open>mouseOnly\<close>: each commutes with forgetting them.
\<close>

lemma forget_options_fields:
  "o_originX (forget_options opts) = o_originX opts"
  "o_originY (forget_options opts) = o_originY opts"
  "o_ratioLock (forget_options opts) = o_ratioLock opts"
  by (simp_all add: forget_options_def)

lemma forget_options_read:
  "o_mode (forget_options n) = o_mode n"
  "o_name (forget_options n) = o_name n"
  "o_deltaScale (forget_options n) = o_deltaScale n"
  "o_deltaZoom (forget_options n) = o_deltaZoom n"
  "o_dragMin (forget_options n) = o_dragMin n"
  "o_dragMax (forget_options n) = o_dragMax n"
  "o_relative (forget_options n) = o_relative n"
  "o_passive (forget_options n) = o_passive n"
  "o_scaleDeltas (forget_options n) = o_scaleDeltas n"
  "o_scaleClients (forget_options n) = o_scaleClients n"
  by (simp_all add: forget_options_def)

lemma forget_fields:
  "passive (forget s) = passive s"
  "clientX (forget s) = clientX s"
  "clientY (forget s) = clientY s"
  "tracking (forget s) = tracking s"
  "activeMode (forget s) = activeMode s"
  by (simp_all add: forget_def)

lemma forget_registry_fields:
  "pointers (forget s) = pointers s"
  "spaceKey (forget s) = spaceKey s"
  by (simp_all add: forget_def)

lemma forget_update_pointers: "(forget s)\<lparr>pointers := p\<rparr> = forget (s\<lparr>pointers := p\<rparr>)"
  by (simp add: forget_def)

lemma forget_update_spaceKey: "(forget s)\<lparr>spaceKey := b\<rparr> = forget (s\<lparr>spaceKey := b\<rparr>)"
  by (simp add: forget_def)

lemma dispatch_forget: "dispatch ty (forget s) = dispatch ty s"
  by (simp add: dispatch_def forget_def)

lemma flush_forget: "flush (forget s) = forget (flush s)"
  by (simp add: flush_def forget_def forget_options_fields)

lemma isAcceptable_forget: "isAcceptable (forget s) = isAcceptable s"
  by (simp add: isAcceptable_def forget_def)

lemma start_forget: "start e (forget s) = (forget (fst (start e s)), snd (start e s))"
  by (simp add: start_def Let_def dispatch_def forget_def)

lemma move_start_tracking_forget:
  "move_start_tracking e (forget s) =
     (forget (fst (move_start_tracking e s)), snd (move_start_tracking e s))"
proof (cases "pressure e \<noteq> 0 \<and> \<not> tracking s \<and> isAcceptable s")
  case True
  then show ?thesis
    by (cases "activeMode s = Some Draw")
       (simp_all add: move_start_tracking_def Let_def isAcceptable_forget forget_fields,
        simp_all add: dispatch_def forget_def)
next
  case False
  then have a: "move_start_tracking e s = (s, [])"
    unfolding move_start_tracking_def by (rule if_not_P)
  from False have "\<not> (pressure e \<noteq> 0 \<and> \<not> tracking (forget s) \<and> isAcceptable (forget s))"
    by (simp add: isAcceptable_forget forget_fields)
  then have b: "move_start_tracking e (forget s) = (forget s, [])"
    unfolding move_start_tracking_def by (rule if_not_P)
  show ?thesis by (simp add: a b)
qed

lemma move_deltas_forget: "move_deltas e (forget s) = forget (move_deltas e s)"
  by (simp add: move_deltas_def Let_def forget_def)

lemma move_located_forget: "move_located r e (forget s) = forget (move_located r e s)"
  by (simp add: move_located_def Let_def forget_def)

lemma move_forget: "move r e (forget s) = (forget (fst (move r e s)), snd (move r e s))"
  by (simp add: move_unfold [of r e "forget s"] move_unfold [of r e s] move_located_forget
      move_start_tracking_forget move_deltas_forget dispatch_forget forget_fields)

lemma end_forget: "end' e (forget s) = (forget (fst (end' e s)), snd (end' e s))"
  by (simp add: end'_def Let_def forget_registry_fields forget_update_pointers flush_forget
      dispatch_forget forget_fields flush_fields if_distrib [where f = forget])

lemma leave_forget: "leave e (forget s) = (forget (fst (leave e s)), snd (leave e s))"
  by (simp add: leave_def forget_fields dispatch_forget)

lemma keydown_forget: "keydown e (forget s) = (forget (fst (keydown e s)), snd (keydown e s))"
  by (auto simp add: keydown_def Let_def forget_fields flush_forget dispatch_forget
      forget_update_spaceKey)

lemma keyup_forget: "keyup e (forget s) = (forget (fst (keyup e s)), snd (keyup e s))"
  by (simp add: keyup_def forget_update_spaceKey if_distrib [where f = forget])

lemma subscribe_forget: "fst (subscribe cb (forget s)) = forget (fst (subscribe cb s))"
  by (simp add: subscribe_def forget_def)

lemma unsubscribe_forget: "unsubscribe cb (forget s) = forget (unsubscribe cb s)"
  by (simp add: unsubscribe_def forget_def)

lemma object_assign_forget:
  "forget_options (object_assign (forget_options a) (forget_options n)) =
   forget_options (object_assign a n)"
  by (simp add: object_assign_def forget_options_def)

lemma update_forget:
  "forget (update (Some (forget_options n)) (forget s)) = forget (update (Some n) s)"
  by (cases "o_mode n")
     (simp_all add: update_def forget_def object_assign_forget forget_options_read
        forget_options_fields)

lemma pointer_forget: "forget (pointer el (forget_options opts)) = forget (pointer el opts)"
  by (simp add: pointer_def Let_def forget_def forget_options_def)

lemma step_forget:
  assumes "\<And>n. i \<noteq> Update (Some n)"
  shows "step i (forget s) = (forget (fst (step i s)), snd (step i s))"
proof (cases i)
  case (Update n)
  with assms have "n = None" by (cases n) auto
  with Update show ?thesis by (simp add: update_def)
qed (simp_all add: start_forget move_forget end_forget leave_forget keydown_forget
       keyup_forget subscribe_forget unsubscribe_forget)

lemma step_alike:
  assumes "forget_input i = forget_input j" "forget s = forget t"
  shows "snd (step i s) = snd (step j t) \<and> forget (fst (step i s)) = forget (fst (step j t))"
proof (cases "\<exists>n. i = Update (Some n)")
  case True
  then obtain n where i: "i = Update (Some n)" by blast
  with assms(1) obtain m where j: "j = Update (Some m)" and nm: "forget_options n = forget_options m"
    by (cases j rule: forget_input.cases) auto
  have "forget (update (Some n) s) = forget (update (Some (forget_options n)) (forget s))"
    by (simp only: update_forget)
  also have "\<dots> = forget (update (Some (forget_options m)) (forget t))"
    by (simp only: nm assms(2))
  also have "\<dots> = forget (update (Some m) t)"
    by (simp only: update_forget)
  finally show ?thesis by (simp add: i j)
next
  case False
  then have ni: "\<And>n. i \<noteq> Update (Some n)" by blast
  with assms(1) have ij: "j = i"
    by (cases i rule: forget_input.cases; cases j rule: forget_input.cases) auto
  have "step i (forget s) = step i (forget t)" by (simp only: assms(2))
  then show ?thesis
    by (simp add: ij step_forget [OF ni])
qed

lemma run_alike:
  "map forget_input is = map forget_input js \<Longrightarrow> forget s = forget t \<Longrightarrow>
   snd (run is s) = snd (run js t)"
proof (induction "is" arbitrary: js s t)
  case Nil
  then show ?case by simp
next
  case (Cons i "is")
  from Cons.prems(1) obtain j js' where js: "js = j # js'"
    and ij: "forget_input i = forget_input j"
    and rest: "map forget_input is = map forget_input js'"
    by (cases js) auto
  from step_alike [OF ij Cons.prems(2)]
  have out: "snd (step i s) = snd (step j t)"
    and st: "forget (fst (step i s)) = forget (fst (step j t))" by simp_all
  from Cons.IH [OF rest st] out show ?case
    by (simp only: js snd_run_Cons)
qed

text \<open>
  Claim C10. Two runs of the tracker whose initial options and whose inputs (the options
  passed to \<^verbatim>\<open>update\<close> included) differ only in \<^verbatim>\<open>touchOnly\<close> and \<^verbatim>\<open>mouseOnly\<close> dispatch the
  same events, with the same payloads, to the same callbacks.
\<close>

theorem touchOnly_mouseOnly_no_effect:
  assumes "map forget_input is = map forget_input js"
    and "forget_options opts1 = forget_options opts2"
  shows "snd (run is (pointer el opts1)) = snd (run js (pointer el opts2))"
proof -
  have "forget (pointer el opts1) = forget (pointer el (forget_options opts1))"
    by (simp only: pointer_forget)
  also have "\<dots> = forget (pointer el opts2)"
    by (simp only: assms(2) pointer_forget)
  finally show ?thesis
    using assms(1) by (rule run_alike [rotated])
qed

subsection \<open>The listeners on concrete inputs\<close>

text \<open>
  The square root has no code equation, so concrete runs are evaluated by the simplifier,
  with the square roots that occur given as lemmas.
\<close>

lemma sqrt_numerals: "sqrt 40000 = 200"
  by (rule real_sqrt_unique) simp_all

lemmas tracker_defs =
  pointer_def no_options_def start_def move_def move_start_tracking_def move_deltas_def
  end'_def leave_def keydown_def keyup_def flush_def dispatch_def isAcceptable_def
  getPointerMode_def getPointerDistance_def getEventType_def snapOrigin_def lockRatio_def
  map_delete_def map_values_def contact_def page_def escape_key_def Mouse_Middle_def Let_def

lemma ratio_lock_move_fields:
  "ratio_lock_move \<noteq> []"
  "d_type (last ratio_lock_move) = Move"
  "d_mode (last ratio_lock_move) = Some Draw"
  "d_isDrawing (last ratio_lock_move)"
  "d_isRatioLocked (last ratio_lock_move)"
  "d_deltaX (last ratio_lock_move) = - 40"
  "d_clientY (last ratio_lock_move) - d_startY (last ratio_lock_move) = 10"
  "d_deltaY (last ratio_lock_move) = 40"
  by (simp_all add: ratio_lock_move_def ratio_lock_gesture_def tracker_defs)

text \<open>
  Claim C1 as stated fails. After a Shift press at (100, 100) has started a ratio-locked
  draw, the move to (60, 110) has \<open>deltaX = -40\<close> and an unlocked \<open>deltaY\<close> of 10, and the
  \<^verbatim>\<open>Move\<close> event it dispatches does not carry \<open>deltaY = -40\<close>.
\<close>

theorem ratio_lock_sign_counterexample:
  "d_type (last ratio_lock_move) = Move \<and>
   d_mode (last ratio_lock_move) = Some Draw \<and>
   d_isRatioLocked (last ratio_lock_move) \<and>
   d_deltaX (last ratio_lock_move) = - 40 \<and>
   d_clientY (last ratio_lock_move) - d_startY (last ratio_lock_move) = 10 \<and>
   d_deltaY (last ratio_lock_move) \<noteq> - 40"
  by (simp add: ratio_lock_move_fields)

text \<open>
  The same move under the amended claim C1: the event carries \<open>deltaY = |deltaX| = 40\<close>.
\<close>

theorem ratio_lock_follows_deltaY_witness:
  "last ratio_lock_move \<in> set ratio_lock_move \<and>
   d_type (last ratio_lock_move) = Move \<and>
   d_isDrawing (last ratio_lock_move) \<and>
   d_isRatioLocked (last ratio_lock_move) \<and>
   d_deltaX (last ratio_lock_move) = d_clientX (last ratio_lock_move) - d_startX (last ratio_lock_move) \<and>
   d_deltaY (last ratio_lock_move) = \<bar>d_deltaX (last ratio_lock_move)\<bar>"
proof -
  have h1: "last ratio_lock_move \<in> set (snd (move page (contact 1 True ''mouse'' 60 110)
              (fst (run ratio_lock_gesture (pointer 0 no_options)))))"
    using ratio_lock_move_fields(1) by (simp add: ratio_lock_move_def [symmetric])
  from ratio_lock_follows_deltaY [OF h1 ratio_lock_move_fields(2,4,5)] h1
  show ?thesis
    by (simp add: ratio_lock_move_fields ratio_lock_move_def [symmetric])
qed

text \<open>
  Claim C2 fails on the pointer-leave path. A touch that has started a draw leaves the host
  element: \<^verbatim>\<open>Cancel\<close> is dispatched and the tracker is left tracking, in draw mode, with the
  start point and the contact of the canceled gesture. The same gesture canceled with the
  Escape key is reset. A move after the pointer-leave continues the canceled draw: its
  \<^verbatim>\<open>Move\<close> event is flagged as drawing and carries the old start point and a delta from it.
\<close>

theorem leave_cancel_without_reset:
  "map d_type (snd (run leave_gesture (pointer 0 no_options))) = [Down, DrawStart, Move, Cancel] \<and>
   tracking (fst (run leave_gesture (pointer 0 no_options))) \<and>
   activeMode (fst (run leave_gesture (pointer 0 no_options))) = Some Draw \<and>
   startX (fst (run leave_gesture (pointer 0 no_options))) = 110 \<and>
   startY (fst (run leave_gesture (pointer 0 no_options))) = 100 \<and>
   map fst (pointers (fst (run leave_gesture (pointer 0 no_options)))) = [1] \<and>
   map d_type (snd (run escape_gesture (pointer 0 no_options))) = [Down, DrawStart, Move, Cancel] \<and>
   \<not> tracking (fst (run escape_gesture (pointer 0 no_options))) \<and>
   activeMode (fst (run escape_gesture (pointer 0 no_options))) = None \<and>
   startX (fst (run escape_gesture (pointer 0 no_options))) = 0 \<and>
   pointers (fst (run escape_gesture (pointer 0 no_options))) = [] \<and>
   map d_type (snd (move page (contact 1 True ''touch'' 150 100)
                      (fst (run leave_gesture (pointer 0 no_options))))) = [Move] \<and>
   map d_isDrawing (snd (move page (contact 1 True ''touch'' 150 100)
                      (fst (run leave_gesture (pointer 0 no_options))))) = [True] \<and>
   map d_startX (snd (move page (contact 1 True ''touch'' 150 100)
                      (fst (run leave_gesture (pointer 0 no_options))))) = [110] \<and>
   map d_deltaX (snd (move page (contact 1 True ''touch'' 150 100)
                      (fst (run leave_gesture (pointer 0 no_options))))) = [40]"
  by (simp add: leave_gesture_def escape_gesture_def tracker_defs)




text \<open>
  Claim C5 as stated fails. After two touches 200 pixels apart have gone down, the mode is
  undefined and the registry is not empty.
\<close>

theorem wide_touches_registry_counterexample:
  "pointers (fst (run wide_touches (pointer 0 no_options))) \<noteq> [] \<and>
   activeMode (fst (run wide_touches (pointer 0 no_options))) = None"
  by (simp add: wide_touches_def tracker_defs sqrt_numerals)

text \<open>
  The amended claim C5 after a tap: the registry is empty and the mode is undefined.
\<close>

theorem empty_registry_mode_undefined_witness:
  "pointers (fst (run tap (pointer 0 no_options))) = [] \<and>
   activeMode (fst (run tap (pointer 0 no_options))) = None"
proof -
  have "pointers (fst (run tap (pointer 0 no_options))) = []"
    by (simp add: tap_def tracker_defs)
  with empty_registry_mode_undefined [of tap 0 no_options] show ?thesis
    by simp
qed

text \<open>
  Claim C6 fails when a second contact arrives mid-gesture. A touch starts a draw and a
  second touch goes down 200 pixels away: \<^verbatim>\<open>start\<close> sets the mode to undefined and leaves the
  tracking flag on. Releasing both touches then dispatches \<^verbatim>\<open>Up\<close> alone: the draw that was
  started is never ended or canceled.
\<close>

theorem second_contact_tracking_without_mode:
  "map d_type (snd (run joined_gesture (pointer 0 no_options))) = [Down, DrawStart, Move] \<and>
   map fst (pointers (fst (run joined_gesture (pointer 0 no_options)))) = [1, 2] \<and>
   tracking (fst (run joined_gesture (pointer 0 no_options))) \<and>
   activeMode (fst (run joined_gesture (pointer 0 no_options))) = None \<and>
   map d_type (snd (run joined_release (pointer 0 no_options))) = [Down, DrawStart, Move, Up]"
  by (simp add: joined_release_def joined_gesture_def tracker_defs sqrt_numerals)

text \<open>
  Claim C9 on three touches and the default band.
\<close>

theorem three_contacts_no_mode_witness:
  "3 \<le> length three_touches \<and> (0::real) \<le> 50 \<and>
   getPointerDistance three_touches = 0 \<and> getPointerMode three_touches 50 125 False = None"
proof -
  have l: "3 \<le> length three_touches" by (simp add: three_touches_def)
  from three_contacts_no_mode [OF l, of 50 125 False] l show ?thesis by simp
qed

text \<open>
  Claim C10 on two runs of a mouse draw: one created with \<^verbatim>\<open>touchOnly\<close> and updated with
  \<^verbatim>\<open>mouseOnly\<close>, the other created with neither and updated with \<^verbatim>\<open>touchOnly\<close>. They
  dispatch the same three events.
\<close>

theorem touchOnly_mouseOnly_no_effect_witness:
  "map forget_input touch_only_run = map forget_input mouse_only_run \<and>
   forget_options touch_only_options = forget_options no_options \<and>
   snd (run touch_only_run (pointer 0 touch_only_options)) =
   snd (run mouse_only_run (pointer 0 no_options)) \<and>
   map d_type (snd (run mouse_only_run (pointer 0 no_options))) = [Down, DrawStart, Move]"
proof -
  have i: "map forget_input touch_only_run = map forget_input mouse_only_run"
    by (simp add: touch_only_run_def mouse_only_run_def touch_only_options_def
        mouse_only_options_def forget_options_def no_options_def)
  have opts: "forget_options touch_only_options = forget_options no_options"
    by (simp add: touch_only_options_def forget_options_def no_options_def)
  have ev: "map d_type (snd (run mouse_only_run (pointer 0 no_options))) = [Down, DrawStart, Move]"
    by (simp add: mouse_only_run_def touch_only_options_def update_def object_assign_def
        tracker_defs)
  from touchOnly_mouseOnly_no_effect [OF i opts, of 0] i opts ev show ?thesis
    by simp
qed

end
